theory Spec2Isabelle
  imports Complex_Main
begin

section \<open>Data classes\<close>

text \<open>
  The embedding follows \<^verbatim>\<open>jellyfin_mp4_to_webp_gui.pyw\<close>. Python \<^verbatim>\<open>int\<close> is
  \<^typ>\<open>int\<close>. A Python \<^verbatim>\<open>float\<close> is the \<^typ>\<open>real\<close> it denotes, and every float
  operation rounds its exact result to the nearest binary64 value (section on float
  arithmetic below); results beyond the largest finite double, infinities and NaN are
  outside the model. A \<^verbatim>\<open>Path\<close> is the list of its components. Exceptions are values
  of \<open>exn\<close>; \<open>GmtimeError\<close> stands for the \<^verbatim>\<open>OverflowError\<close> or \<^verbatim>\<open>OSError\<close> that
  \<^verbatim>\<open>time.gmtime\<close> raises for a time outside the range of the platform.
\<close>

type_synonym path = "string list"

datatype exn = ZeroDivisionError | GmtimeError | OtherError string

record VideoJob =
  video_path :: path
  index :: int
  total :: int
  base_path :: "path option"
  overwrite_existing :: bool
  video_duration :: real

record ProgressUpdate =
  worker_id :: int
  video_name :: string
  progress :: real
  eta :: string
  fps :: real
  current_frame :: int
  total_frames :: int

record JobComplete =
  worker_id :: int
  video_name :: string
  success :: bool
  message :: string
  deleted_files :: "string list option"
  video_duration :: real

record WorkerConfig =
  fps :: int
  width :: int
  quality :: int
  interval_count :: int
  clip_length :: real
  bridge_percent :: real
  bridge_interval_abs :: real
  bridge_window :: real

section \<open>Float arithmetic\<close>

text \<open>
  IEEE 754 binary64 with rounding to nearest, ties to even, and gradual underflow: a
  non-zero real \<open>x\<close> with \<open>2 ^ e \<le> \<bar>x\<bar> < 2 ^ (e + 1)\<close> is rounded to a multiple of
  \<open>2 ^ (max e (- 1022) - 52)\<close>. \<open>bit_length\<close> is \<^verbatim>\<open>int.bit_length\<close>; \<open>float_exponent x\<close>
  is the \<open>e\<close> above, for \<open>x > 0\<close>.
\<close>

fun bit_length :: "nat \<Rightarrow> nat" where
  "bit_length n = (if n = 0 then 0 else Suc (bit_length (n div 2)))"

declare bit_length.simps [simp del]

definition pow2 :: "int \<Rightarrow> real" where
  "pow2 q = (if 0 \<le> q then 2 ^ nat q else 1 / 2 ^ nat (- q))"

definition float_exponent :: "real \<Rightarrow> int" where
  "float_exponent x =
     (if 1 \<le> x then int (bit_length (nat \<lfloor>x\<rfloor>)) - 1
      else - int (bit_length (nat (\<lceil>1 / x\<rceil> - 1))))"

definition round_half_even :: "real \<Rightarrow> int" where
  "round_half_even x =
     (let f = \<lfloor>x\<rfloor>; d = x - of_int f
      in if d < 1 / 2 then f else if 1 / 2 < d then f + 1 else if even f then f else f + 1)"

definition binary64 :: "real \<Rightarrow> real" where
  "binary64 x =
     (if x = 0 then 0
      else let q = max (float_exponent \<bar>x\<bar>) (- 1022) - 52
           in of_int (round_half_even (x / pow2 q)) * pow2 q)"

text \<open>
  The operations of Python on floats: \<^verbatim>\<open>x + y\<close>, \<^verbatim>\<open>x - y\<close>, \<^verbatim>\<open>x * y\<close>, \<^verbatim>\<open>x / y\<close> (the
  callers test for a zero divisor), the conversion of an \<^verbatim>\<open>int\<close> operand, and the true
  division \<^verbatim>\<open>m / n\<close> of two ints, which Python rounds once.
\<close>

definition fadd :: "real \<Rightarrow> real \<Rightarrow> real" where
  "fadd x y = binary64 (x + y)"

definition fsub :: "real \<Rightarrow> real \<Rightarrow> real" where
  "fsub x y = binary64 (x - y)"

definition fmul :: "real \<Rightarrow> real \<Rightarrow> real" where
  "fmul x y = binary64 (x * y)"

definition fdiv :: "real \<Rightarrow> real \<Rightarrow> real" where
  "fdiv x y = binary64 (x / y)"

definition float_of_int :: "int \<Rightarrow> real" where
  "float_of_int n = binary64 (of_int n)"

definition int_truediv :: "int \<Rightarrow> int \<Rightarrow> real" where
  "int_truediv m n = binary64 (of_int m / of_int n)"

section \<open>The sampling plan of \<^verbatim>\<open>process_video\<close>\<close>

text \<open>Python's \<^verbatim>\<open>int(x)\<close> on a float truncates toward zero.\<close>

definition py_int :: "real \<Rightarrow> int" where
  "py_int x = (if 0 \<le> x then \<lfloor>x\<rfloor> else \<lceil>x\<rceil>)"

record SamplingPlan =
  interval :: real
  bridge_interval :: real
  expected_frames :: int

text \<open>
  Lines 166 to 183 of \<^verbatim>\<open>process_video\<close>. The division by \<^verbatim>\<open>config.interval_count\<close>
  raises \<^verbatim>\<open>ZeroDivisionError\<close> when the count is zero; the division by
  \<^verbatim>\<open>bridge_interval\<close> is guarded by the test \<^verbatim>\<open>bridge_interval > 0\<close>. Every
  operation is the float operation of the source, in its order of evaluation.
\<close>

definition sampling_plan :: "real \<Rightarrow> WorkerConfig \<Rightarrow> exn + SamplingPlan" where
  "sampling_plan duration config =
     (if interval_count config = 0 then Inl ZeroDivisionError
      else
        let interval = fdiv duration (float_of_int (interval_count config));
            bridge_interval =
              (if bridge_percent config > 0 then fmul interval (bridge_percent config)
               else if bridge_interval_abs config > 0 then bridge_interval_abs config
               else 0);
            main_frames =
              fmul (fmul (float_of_int (interval_count config)) (clip_length config))
                   (float_of_int (WorkerConfig.fps config));
            bridge_frames =
              (if bridge_interval > 0
               then fmul (fmul (fdiv duration bridge_interval) (bridge_window config))
                         (float_of_int (WorkerConfig.fps config))
               else 0)
        in Inr \<lparr>interval = interval, bridge_interval = bridge_interval,
                expected_frames = max 1 (py_int (fadd main_frames bridge_frames))\<rparr>)"

section \<open>Strings and the built-in parsers\<close>

text \<open>
  \<^verbatim>\<open>str.strip()\<close> removes leading and trailing whitespace. Process output is modelled
  as a list of bytes; the whitespace characters are the ASCII ones of \<^verbatim>\<open>str.isspace\<close>
  (codes 9 to 13 and 28 to 32).
\<close>

definition py_isspace :: "char \<Rightarrow> bool" where
  "py_isspace c = (let n = (of_char c :: nat) in (9 \<le> n \<and> n \<le> 13) \<or> (28 \<le> n \<and> n \<le> 32))"

definition strip :: "string \<Rightarrow> string" where
  "strip s = rev (dropWhile py_isspace (rev (dropWhile py_isspace s)))"

text \<open>\<^verbatim>\<open>sub in s\<close> on strings, and \<^verbatim>\<open>s.split(sep)\<close> for a one-character separator.\<close>

fun contains :: "string \<Rightarrow> string \<Rightarrow> bool" where
  "contains sub [] = (sub = [])"
| "contains sub (c # cs) = (take (length sub) (c # cs) = sub \<or> contains sub cs)"

fun split :: "char \<Rightarrow> string \<Rightarrow> string list" where
  "split sep [] = [[]]"
| "split sep (c # cs) =
     (if c = sep then [] # split sep cs
      else (case split sep cs of [] \<Rightarrow> [[c]] | p # ps \<Rightarrow> (c # p) # ps))"

text \<open>
  The built-ins \<^verbatim>\<open>float(s)\<close> and \<^verbatim>\<open>int(s)\<close> belong to the Python runtime, not to this
  program: the functions below take them as parameters \<open>pf\<close> and \<open>pint\<close>, returning
  \<open>None\<close> where the built-in raises \<^verbatim>\<open>ValueError\<close>. For evaluation at concrete inputs,
  \<open>py_float\<close> and \<open>py_int_of_str\<close> give their value on plain signed decimal literals
  (what ffprobe and ffmpeg print); exponents, \<^verbatim>\<open>inf\<close>, \<^verbatim>\<open>nan\<close>, underscores and
  surrounding whitespace are outside this fragment.
\<close>

definition is_digit :: "char \<Rightarrow> bool" where
  "is_digit c = (c \<in> set ''0123456789'')"

definition digit_val :: "char \<Rightarrow> nat" where
  "digit_val c = (of_char c :: nat) - 48"

definition digits_val :: "string \<Rightarrow> nat" where
  "digits_val ds = foldl (\<lambda>acc c. 10 * acc + digit_val c) 0 ds"

definition split_sign :: "string \<Rightarrow> bool \<times> string" where
  "split_sign s =
     (case s of [] \<Rightarrow> (False, [])
      | c # r \<Rightarrow> if c = CHR ''-'' then (True, r) else if c = CHR ''+'' then (False, r)
                 else (False, s))"

definition py_float :: "string \<Rightarrow> real option" where
  "py_float s =
     (let (neg, body) = split_sign s;
          ip = takeWhile is_digit body;
          rest = dropWhile is_digit body;
          sgn = (if neg then - 1 else 1 :: real)
      in case rest of
           [] \<Rightarrow> if ip = [] then None else Some (sgn * real (digits_val ip))
         | c # fp \<Rightarrow>
             if c = CHR ''.'' \<and> list_all is_digit fp \<and> (ip \<noteq> [] \<or> fp \<noteq> [])
             then Some (sgn * (real (digits_val ip) + real (digits_val fp) / 10 ^ length fp))
             else None)"

definition py_int_of_str :: "string \<Rightarrow> int option" where
  "py_int_of_str s =
     (let (neg, body) = split_sign s
      in if body \<noteq> [] \<and> list_all is_digit body
         then Some ((if neg then - 1 else 1) * int (digits_val body))
         else None)"

section \<open>\<^verbatim>\<open>get_video_duration\<close>\<close>

text \<open>
  One run of ffprobe either fails to launch (\<^verbatim>\<open>subprocess.run\<close> raises) or returns its
  standard output. The outside world is the function from the attempt number to the
  result of that run. The calls to external programs and to \<^verbatim>\<open>time.sleep\<close> are
  recorded in order.
\<close>

datatype probe_result = ProbeRaises exn | ProbeStdout string

datatype ext_call = Ffprobe | Sleep real | Ffmpeg | CleanupOldLandscapes

text \<open>Lines 102 to 107: the stripped output, when not empty, is given to \<^verbatim>\<open>float\<close>.\<close>

definition parsed_output :: "(string \<Rightarrow> real option) \<Rightarrow> string \<Rightarrow> real option" where
  "parsed_output pf out = (let output = strip out in if output \<noteq> [] then pf output else None)"

text \<open>
  The loop \<^verbatim>\<open>for attempt in range(retries)\<close>, by recursion on the number of attempts
  left; \<open>attempt\<close> is the loop variable.
\<close>

fun get_video_duration_loop ::
  "(string \<Rightarrow> real option) \<Rightarrow> (nat \<Rightarrow> probe_result) \<Rightarrow> nat \<Rightarrow> nat
     \<Rightarrow> (exn + real option) \<times> ext_call list" where
  "get_video_duration_loop pf probe attempt 0 = (Inr None, [])"
| "get_video_duration_loop pf probe attempt (Suc n) =
     (case probe attempt of
        ProbeRaises e \<Rightarrow> (Inl e, [Ffprobe])
      | ProbeStdout out \<Rightarrow>
          (case parsed_output pf out of
             Some v \<Rightarrow> (Inr (Some v), [Ffprobe])
           | None \<Rightarrow>
               (let (r, tr) = get_video_duration_loop pf probe (Suc attempt) n
                in (r, Ffprobe # Sleep (1 / 2) # tr))))"

definition get_video_duration ::
  "(string \<Rightarrow> real option) \<Rightarrow> (nat \<Rightarrow> probe_result) \<Rightarrow> nat
     \<Rightarrow> (exn + real option) \<times> ext_call list" where
  "get_video_duration pf probe retries = get_video_duration_loop pf probe 0 retries"

text \<open>What one attempt amounts to, for the statements below.\<close>

definition attempt_fails :: "(string \<Rightarrow> real option) \<Rightarrow> probe_result \<Rightarrow> bool" where
  "attempt_fails pf r =
     (case r of ProbeRaises e \<Rightarrow> False | ProbeStdout out \<Rightarrow> parsed_output pf out = None)"

definition attempt_yields :: "(string \<Rightarrow> real option) \<Rightarrow> probe_result \<Rightarrow> real \<Rightarrow> bool" where
  "attempt_yields pf r v =
     (case r of ProbeRaises e \<Rightarrow> False | ProbeStdout out \<Rightarrow> parsed_output pf out = Some v)"

section \<open>\<^verbatim>\<open>process_video\<close>\<close>

text \<open>
  The display name of lines 133 to 140: the path relative to \<^verbatim>\<open>job.base_path\<close>, or the
  file name when there is no base path or \<^verbatim>\<open>relative_to\<close> raises \<^verbatim>\<open>ValueError\<close>.
\<close>

fun path_str :: "path \<Rightarrow> string" where
  "path_str [] = ''.''"
| "path_str [c] = c"
| "path_str (c # cs) = c @ ''/'' @ path_str cs"

definition path_name :: "path \<Rightarrow> string" where
  "path_name p = (if p = [] then [] else last p)"

definition relative_to :: "path \<Rightarrow> path \<Rightarrow> path option" where
  "relative_to p base =
     (if take (length base) p = base then Some (drop (length base) p) else None)"

definition display_name :: "VideoJob \<Rightarrow> string" where
  "display_name job =
     (case base_path job of
        Some base \<Rightarrow>
          (case relative_to (video_path job) base of
             Some rel \<Rightarrow> path_str rel
           | None \<Rightarrow> path_name (video_path job))
      | None \<Rightarrow> path_name (video_path job))"

text \<open>
  \<^verbatim>\<open>time.strftime("%H:%M:%S", time.gmtime(t))\<close>. \<^verbatim>\<open>time.gmtime\<close> raises for a
  time outside a range that depends on the platform: the test for that range is the
  parameter \<open>gmtime_ok\<close>, and the result is \<open>None\<close> when it raises. For an accepted
  time the text is the time of day, \<open>t\<close> seconds after the epoch (\<open>hms\<close>).
  \<open>gmtime_between lo hi\<close> is a platform whose range is \<open>lo\<close> to \<open>hi\<close>.
\<close>

definition two_digits :: "int \<Rightarrow> string" where
  "two_digits n = [''0123456789'' ! nat (n div 10), ''0123456789'' ! nat (n mod 10)]"

definition hms :: "int \<Rightarrow> string" where
  "hms t =
     two_digits ((t div 3600) mod 24) @ '':'' @ two_digits ((t div 60) mod 60) @ '':''
       @ two_digits (t mod 60)"

definition strftime_hms :: "(int \<Rightarrow> bool) \<Rightarrow> int \<Rightarrow> string option" where
  "strftime_hms gmtime_ok t = (if gmtime_ok t then Some (hms t) else None)"

definition gmtime_between :: "int \<Rightarrow> int \<Rightarrow> int \<Rightarrow> bool" where
  "gmtime_between lo hi t = (lo \<le> t \<and> t \<le> hi)"

datatype msg = Progress ProgressUpdate | Complete JobComplete

text \<open>
  Lines 250 to 252: the rate and the ETA in seconds for a parsed frame count, \<open>elapsed\<close>
  being \<^verbatim>\<open>time.time() - start_time\<close>.
\<close>

definition frame_rate :: "int \<Rightarrow> real \<Rightarrow> real" where
  "frame_rate cur elapsed = (if elapsed > 0 then fdiv (float_of_int cur) elapsed else 0)"

definition eta_seconds :: "int \<Rightarrow> int \<Rightarrow> real \<Rightarrow> int" where
  "eta_seconds expected cur elapsed =
     (let speed = frame_rate cur elapsed;
          remaining_frames = max 0 (expected - cur)
      in if speed > 0 then py_int (fdiv (float_of_int remaining_frames) speed) else 0)"

text \<open>
  Lines 248 to 263: the progress message for a parsed frame count. A division by
  \<^verbatim>\<open>expected_frames = 0\<close> or a time that \<^verbatim>\<open>time.gmtime\<close> rejects raises inside the bare
  \<^verbatim>\<open>except\<close>, and no message is sent.
\<close>

definition progress_update ::
  "(int \<Rightarrow> bool) \<Rightarrow> int \<Rightarrow> string \<Rightarrow> int \<Rightarrow> int \<Rightarrow> real \<Rightarrow> ProgressUpdate option" where
  "progress_update gmtime_ok wid name expected cur elapsed =
     (if expected = 0 then None
      else
        let percent = min 100 (fmul (int_truediv cur expected) 100);
            speed = frame_rate cur elapsed;
            eta = eta_seconds expected cur elapsed
        in case strftime_hms gmtime_ok eta of
             None \<Rightarrow> None
           | Some eta_str \<Rightarrow>
               Some \<lparr>ProgressUpdate.worker_id = wid, video_name = name, progress = percent,
                     eta = eta_str, fps = speed, current_frame = cur,
                     total_frames = expected\<rparr>)"

text \<open>
  Lines 242 to 265, for one line of the status stream read at wall time \<open>elapsed\<close>: a
  line without \<^verbatim>\<open>frame=\<close>, or whose second field \<^verbatim>\<open>int\<close> rejects, sends nothing.
\<close>

definition handle_line ::
  "(int \<Rightarrow> bool) \<Rightarrow> (string \<Rightarrow> int option) \<Rightarrow> int \<Rightarrow> string \<Rightarrow> int \<Rightarrow> string \<times> real
     \<Rightarrow> ProgressUpdate option" where
  "handle_line gmtime_ok pint wid name expected le =
     (let line = fst le; elapsed = snd le in
      if contains ''frame='' line then
        (let parts = split CHR ''='' line in
         if length parts \<ge> 2 then
           (case pint (strip (parts ! 1)) of
              None \<Rightarrow> None
            | Some cur \<Rightarrow> progress_update gmtime_ok wid name expected cur elapsed)
         else None)
      else None)"

text \<open>
  What the world gives to one call of \<^verbatim>\<open>process_video\<close>: whether the output file
  exists at line 143, the ffprobe runs, and the ffmpeg run. The ffmpeg run is the status
  lines read (each with its wall time) followed either by an exception inside the
  \<^verbatim>\<open>try\<close> block (with its \<^verbatim>\<open>str(e)\<close>; the launch itself may raise, after no line) or by
  the exit code and the file names that \<^verbatim>\<open>cleanup_old_landscapes\<close> then deletes. The
  arguments given to ffmpeg are not modelled.
\<close>

datatype sampler_run =
  SamplerRaises "(string \<times> real) list" string
| SamplerExits "(string \<times> real) list" int "string list"

record job_env =
  output_exists :: bool
  probe :: "nat \<Rightarrow> probe_result"
  sampler :: sampler_run

text \<open>
  The result of a call: the messages put on the progress queue, the external calls
  made, and the exception that left the function, if any.
\<close>

record pv_result =
  emitted :: "msg list"
  calls :: "ext_call list"
  raised :: "exn option"

definition job_complete ::
  "int \<Rightarrow> string \<Rightarrow> bool \<Rightarrow> string \<Rightarrow> string list option \<Rightarrow> real \<Rightarrow> msg" where
  "job_complete wid name ok m del d =
     Complete \<lparr>JobComplete.worker_id = wid, video_name = name, success = ok, message = m,
               deleted_files = del, video_duration = d\<rparr>"

text \<open>Lines 218 to 299: the \<^verbatim>\<open>try\<close> block around the ffmpeg run.\<close>

definition run_sampler ::
  "(int \<Rightarrow> bool) \<Rightarrow> (string \<Rightarrow> int option) \<Rightarrow> job_env \<Rightarrow> VideoJob \<Rightarrow> int \<Rightarrow> string \<Rightarrow> bool \<Rightarrow> int
     \<Rightarrow> ext_call list \<Rightarrow> pv_result" where
  "run_sampler gmtime_ok pint env job wid name file_existed expected tr =
     (case sampler env of
        SamplerRaises lines m \<Rightarrow>
          \<lparr>emitted = map Progress (List.map_filter (handle_line gmtime_ok pint wid name expected) lines)
                      @ [job_complete wid name False m None (VideoJob.video_duration job)],
           calls = tr @ [Ffmpeg], raised = None\<rparr>
      | SamplerExits lines returncode deleted \<Rightarrow>
          if returncode = 0 then
            \<lparr>emitted = map Progress (List.map_filter (handle_line gmtime_ok pint wid name expected) lines)
                        @ [job_complete wid name True
                             (if file_existed then ''OK (overwritten)'' else ''OK'')
                             (Some deleted) (VideoJob.video_duration job)],
             calls = tr @ [Ffmpeg, CleanupOldLandscapes], raised = None\<rparr>
          else
            \<lparr>emitted = map Progress (List.map_filter (handle_line gmtime_ok pint wid name expected) lines)
                        @ [job_complete wid name False ''ffmpeg error'' None
                             (VideoJob.video_duration job)],
             calls = tr @ [Ffmpeg], raised = None\<rparr>)"

text \<open>
  \<^verbatim>\<open>process_video\<close>. The call of \<^verbatim>\<open>get_video_duration\<close> (line 155) and the plan
  (lines 166 to 183) are outside the \<^verbatim>\<open>try\<close> block, so an exception there leaves the
  function.
\<close>

definition process_video ::
  "(int \<Rightarrow> bool) \<Rightarrow> (string \<Rightarrow> real option) \<Rightarrow> (string \<Rightarrow> int option) \<Rightarrow> job_env \<Rightarrow> VideoJob \<Rightarrow> WorkerConfig
     \<Rightarrow> int \<Rightarrow> pv_result" where
  "process_video gmtime_ok pf pint env job config wid =
     (let name = display_name job; file_existed = output_exists env in
      if file_existed \<and> \<not> overwrite_existing job then
        \<lparr>emitted = [job_complete wid name True ''SKIP (exists)'' None
                      (VideoJob.video_duration job)],
         calls = [], raised = None\<rparr>
      else
        (case get_video_duration pf (probe env) 3 of
           (Inl e, tr) \<Rightarrow> \<lparr>emitted = [], calls = tr, raised = Some e\<rparr>
         | (Inr None, tr) \<Rightarrow>
             \<lparr>emitted = [job_complete wid name False ''Duration read failed'' None
                           (VideoJob.video_duration job)],
              calls = tr, raised = None\<rparr>
         | (Inr (Some duration), tr) \<Rightarrow>
             (case sampling_plan duration config of
                Inl e \<Rightarrow> \<lparr>emitted = [], calls = tr, raised = Some e\<rparr>
              | Inr plan \<Rightarrow>
                  run_sampler gmtime_ok pint env job wid name file_existed
                    (expected_frames plan) tr)))"

section \<open>\<^verbatim>\<open>worker_process\<close>\<close>

text \<open>
  The worker loop over the contents of the job queue, \<open>None\<close> being the poison pill. An
  exception that leaves \<^verbatim>\<open>process_video\<close> is caught and printed, and the loop goes on.
  On an empty queue the worker keeps polling: it has not exited. The result is the
  messages sent, the exceptions printed, and whether the worker has exited.
\<close>

fun worker_process ::
  "(int \<Rightarrow> bool) \<Rightarrow> (string \<Rightarrow> real option) \<Rightarrow> (string \<Rightarrow> int option) \<Rightarrow> (VideoJob \<Rightarrow> job_env) \<Rightarrow> WorkerConfig
     \<Rightarrow> int \<Rightarrow> VideoJob option list \<Rightarrow> msg list \<times> exn list \<times> bool" where
  "worker_process gmtime_ok pf pint env_of config wid [] = ([], [], False)"
| "worker_process gmtime_ok pf pint env_of config wid (None # q) = ([], [], True)"
| "worker_process gmtime_ok pf pint env_of config wid (Some job # q) =
     (let r = process_video gmtime_ok pf pint (env_of job) job config wid;
          (ms, es, ex) = worker_process gmtime_ok pf pint env_of config wid q
      in (emitted r @ ms, (case raised r of None \<Rightarrow> [] | Some e \<Rightarrow> [e]) @ es, ex))"

section \<open>The coordinator\<close>

text \<open>
  The state of \<^verbatim>\<open>JellyfinLandscapeGUI\<close> that the batch logic reads and writes. The
  worker handles are the worker numbers; the job queue is the list of its items, \<open>None\<close>
  being the poison pill. What the coordinator shows or schedules in one step is a list
  of actions: the text of the overall label, the calls of \<^verbatim>\<open>_finish_stop\<close> and
  \<^verbatim>\<open>processing_complete\<close> it schedules, and the exception caught and logged by the
  monitor loop. Worker panels, the progress bar and the log lines are not modelled; the
  queues are taken at rest, one operation at a time.
\<close>

datatype overall =
    EtaNumeric int int int string real
  | EtaCalculating int int int
  | Stopping int
  | Stopped int int int

datatype action =
    SetOverallLabel overall
  | FinishStop
  | ProcessingComplete
  | MonitorError exn

record gui =
  workers :: "int list"
  job_queue :: "VideoJob option list"
  is_running :: bool
  is_stopping :: bool
  active_workers :: int
  total_videos :: int
  completed_videos :: int
  video_completion_times :: "real list"
  total_video_duration :: real
  processed_video_duration :: real
  video_durations :: "path \<rightharpoonup> real"

text \<open>
  Lines 660 to 670 of \<^verbatim>\<open>start_processing\<close>, for a non-empty list of files: the counters
  and the ETA tracking are reset.
\<close>

definition start_processing :: "path list \<Rightarrow> gui \<Rightarrow> gui" where
  "start_processing mp4_files s =
     s\<lparr>total_videos := int (length mp4_files), completed_videos := 0,
       is_running := True, is_stopping := False,
       video_completion_times := [], total_video_duration := 0,
       processed_video_duration := 0, video_durations := Map.empty\<rparr>"

text \<open>The truth value of \<^verbatim>\<open>if duration:\<close> for \<^verbatim>\<open>None\<close> or a float.\<close>

definition truthy :: "real option \<Rightarrow> bool" where
  "truthy d = (case d of None \<Rightarrow> False | Some x \<Rightarrow> x \<noteq> 0)"

text \<open>
  The loop of \<^verbatim>\<open>_scan_videos_and_start\<close> (lines 694 to 702); \<open>probe_of video\<close> is
  what the ffprobe runs on that file give. Nothing catches an exception of
  \<^verbatim>\<open>get_video_duration\<close> here: it ends the scan.
\<close>

fun scan_videos ::
  "(string \<Rightarrow> real option) \<Rightarrow> (path \<Rightarrow> nat \<Rightarrow> probe_result) \<Rightarrow> path list \<Rightarrow> gui \<Rightarrow> exn + gui" where
  "scan_videos pf probe_of [] s = Inr s"
| "scan_videos pf probe_of (video # rest) s =
     (case fst (get_video_duration pf (probe_of video) 3) of
        Inl e \<Rightarrow> Inl e
      | Inr duration \<Rightarrow>
          scan_videos pf probe_of rest
            (if truthy duration
             then s\<lparr>video_durations := (video_durations s)(video \<mapsto> the duration),
                    total_video_duration := fadd (total_video_duration s) (the duration)\<rparr>
             else s))"

text \<open>
  Lines 734 to 760 of \<^verbatim>\<open>_finalize_scan_and_start\<close>: one job per file, numbered from 1,
  with the duration \<^verbatim>\<open>self.video_durations.get(str(video), 0)\<close>, then one poison pill per
  worker; \<open>n\<close> is the number of workers chosen.
\<close>

definition make_job :: "gui \<Rightarrow> path \<Rightarrow> bool \<Rightarrow> int \<times> path \<Rightarrow> VideoJob" where
  "make_job s folder overwrite iv =
     \<lparr>video_path = snd iv, index = fst iv, total = total_videos s, base_path = Some folder,
      overwrite_existing = overwrite,
      video_duration = (case video_durations s (snd iv) of Some d \<Rightarrow> d | None \<Rightarrow> 0)\<rparr>"

definition finalize_scan_and_start :: "path list \<Rightarrow> path \<Rightarrow> bool \<Rightarrow> nat \<Rightarrow> gui \<Rightarrow> gui" where
  "finalize_scan_and_start mp4_files folder overwrite n s =
     s\<lparr>job_queue :=
         map (\<lambda>iv. Some (make_job s folder overwrite iv))
             (zip (map int [1 ..< Suc (length mp4_files)]) mp4_files)
         @ replicate n None,
       workers := map int [1 ..< Suc n]\<rparr>"

definition scan_videos_and_start ::
  "(string \<Rightarrow> real option) \<Rightarrow> (path \<Rightarrow> nat \<Rightarrow> probe_result) \<Rightarrow> path list \<Rightarrow> path \<Rightarrow> bool
     \<Rightarrow> nat \<Rightarrow> gui \<Rightarrow> exn + gui" where
  "scan_videos_and_start pf probe_of mp4_files folder overwrite n s =
     (case scan_videos pf probe_of mp4_files s of
        Inl e \<Rightarrow> Inl e
      | Inr s' \<Rightarrow> Inr (finalize_scan_and_start mp4_files folder overwrite n s'))"

text \<open>
  The branch of \<^verbatim>\<open>monitor_progress\<close> for a \<^verbatim>\<open>JobComplete\<close> message (lines 784 to
  880). \<open>alive\<close> is the number of workers for which \<^verbatim>\<open>is_alive()\<close> holds at line
  799, \<open>elapsed\<close> is \<^verbatim>\<open>time.time() - self.batch_start_time\<close> at line 818. The
  division at line 848 raises \<^verbatim>\<open>ZeroDivisionError\<close> when \<open>elapsed\<close> is zero, and
  \<^verbatim>\<open>time.gmtime\<close> at line 852 raises for a time outside the range of the platform; the
  loop catches and logs either, after the counters have been updated.
\<close>

definition on_job_complete ::
  "(int \<Rightarrow> bool) \<Rightarrow> gui \<Rightarrow> JobComplete \<Rightarrow> int \<Rightarrow> real \<Rightarrow> gui \<times> action list" where
  "on_job_complete gmtime_ok s m alive elapsed =
     (if is_stopping s then
        (let s1 = (if success m \<and> message m \<noteq> ''SKIP (exists)''
                   then s\<lparr>completed_videos := completed_videos s + 1\<rparr> else s)
         in (s1, SetOverallLabel (Stopping alive) # (if alive = 0 then [FinishStop] else [])))
      else
        (let s1 = s\<lparr>processed_video_duration :=
                       fadd (processed_video_duration s) (JobComplete.video_duration m),
                     video_completion_times := video_completion_times s @ [elapsed],
                     completed_videos := completed_videos s + 1\<rparr>;
             remaining = total_videos s1 - completed_videos s1;
             remaining_duration = fsub (total_video_duration s1) (processed_video_duration s1);
             done = (if completed_videos s1 \<ge> total_videos s1 then [ProcessingComplete] else [])
         in if completed_videos s1 \<ge> 2 \<or> elapsed \<ge> 10 then
              (if elapsed = 0 then (s1, [MonitorError ZeroDivisionError])
               else
                 (let processing_rate = fdiv (processed_video_duration s1) elapsed in
                  if processing_rate > 0 then
                    (let eta_seconds = fdiv remaining_duration processing_rate in
                     case strftime_hms gmtime_ok (py_int eta_seconds) of
                       None \<Rightarrow> (s1, [MonitorError GmtimeError])
                     | Some eta_str \<Rightarrow>
                         (s1, SetOverallLabel
                                (EtaNumeric (completed_videos s1) (total_videos s1) remaining
                                   eta_str processing_rate) # done))
                  else
                    (s1, SetOverallLabel
                           (EtaCalculating (completed_videos s1) (total_videos s1) remaining)
                         # done)))
            else
              (s1, SetOverallLabel
                     (EtaCalculating (completed_videos s1) (total_videos s1) remaining)
                   # done)))"




text \<open>
  For the statements about the scan: what \<^verbatim>\<open>get_video_duration\<close> returns for a file
  (\<open>None\<close> also when it raises), and the duration the scan takes from it.
\<close>

definition probed :: "(string \<Rightarrow> real option) \<Rightarrow> (path \<Rightarrow> nat \<Rightarrow> probe_result) \<Rightarrow> path \<Rightarrow> real option" where
  "probed pf probe_of video =
     (case fst (get_video_duration pf (probe_of video) 3) of Inl e \<Rightarrow> None | Inr d \<Rightarrow> d)"

definition scanned_duration :: "(string \<Rightarrow> real option) \<Rightarrow> (path \<Rightarrow> nat \<Rightarrow> probe_result) \<Rightarrow> path \<Rightarrow> real" where
  "scanned_duration pf probe_of video =
     (case probed pf probe_of video of None \<Rightarrow> 0 | Some d \<Rightarrow> d)"

section \<open>Properties of the sampling plan\<close>

text \<open>The equations that evaluate float arithmetic at concrete operands.\<close>

lemmas float_eval =
  binary64_def float_exponent_def bit_length.simps round_half_even_def pow2_def
  fadd_def fsub_def fmul_def fdiv_def float_of_int_def int_truediv_def

text \<open>
  The rounding at a value that is a double, at two ties between neighbouring doubles,
  and at one tenth.
\<close>

lemma binary64_exact: "binary64 (7 / 4) = 7 / 4"
  by (simp add: float_eval)

lemma binary64_ties_to_even:
  "binary64 9007199254740993 = 9007199254740992 \<and>
   binary64 9007199254740995 = 9007199254740996"
  by (simp add: float_eval)

lemma binary64_one_tenth: "binary64 (1 / 10) = 3602879701896397 / 36028797018963968"
  by (simp add: float_eval)


text \<open>With a non-zero interval count the plan is computed, and its fields are these.\<close>

lemma sampling_plan_Inr:
  assumes "interval_count C \<noteq> 0"
  shows "\<exists>p. sampling_plan D C = Inr p \<and>
    interval p = fdiv D (float_of_int (interval_count C)) \<and>
    bridge_interval p =
      (if bridge_percent C > 0
       then fmul (fdiv D (float_of_int (interval_count C))) (bridge_percent C)
       else if bridge_interval_abs C > 0 then bridge_interval_abs C
       else 0) \<and>
    expected_frames p =
      max 1 (py_int (fadd (fmul (fmul (float_of_int (interval_count C)) (clip_length C))
                                (float_of_int (WorkerConfig.fps C)))
                          (if bridge_interval p > 0
                           then fmul (fmul (fdiv D (bridge_interval p)) (bridge_window C))
                                     (float_of_int (WorkerConfig.fps C))
                           else 0)))"
  using assms unfolding sampling_plan_def Let_def
  by (simp only: if_False SamplingPlan.simps sum.inject simp_thms ex_simps)


text \<open>
  The doubles that the default settings denote, and the float operations of the plan at
  them.
\<close>

lemma double_3_10: "binary64 (3 / 10) = 5404319552844595 / 18014398509481984"
  by (simp add: float_eval)

lemma double_5_100: "fdiv 5 100 = 3602879701896397 / 72057594037927936"
  by (simp add: float_eval)

lemma double_3_100: "binary64 (3 / 100) = 1080863910568919 / 36028797018963968"
  by (simp add: float_eval)

lemma double_7_10: "binary64 (7 / 10) = 3152519739159347 / 4503599627370496"
  by (simp add: float_eval)

lemma float_of_int_10: "float_of_int 10 = 10"
  by (simp add: float_eval)

lemma fdiv_100_10: "fdiv 100 10 = 10"
  by (simp add: float_eval)

lemma fmul_10_d005: "fmul 10 (3602879701896397 / 72057594037927936) = 1 / 2"
  by (simp add: float_eval)

lemma fmul_10_d03: "fmul 10 (5404319552844595 / 18014398509481984) = 3"
  by (simp add: float_eval)

lemma fmul_3_10: "fmul 3 10 = 30"
  by (simp add: float_eval)

lemma fdiv_100_half: "fdiv 100 (1 / 2) = 200"
  by (simp add: float_eval)

lemma fmul_200_d003: "fmul 200 (1080863910568919 / 36028797018963968) = 6"
  by (simp add: float_eval)

lemma fmul_6_10: "fmul 6 10 = 60"
  by (simp add: float_eval)

lemma fadd_30_60: "fadd 30 60 = 90"
  by (simp add: float_eval)


text \<open>
  Rounding decides the count: with 3 intervals, a clip length of 0.7 and 10 frames per
  second the float product is just below 21 and the count is 20.
\<close>

lemma fmul_3_d07: "fmul 3 (3152519739159347 / 4503599627370496) = 1182194902184755 / 562949953421312"
  by (simp add: float_eval)

lemma fmul_d21_10: "fmul (1182194902184755 / 562949953421312) 10 = 5910974510923775 / 281474976710656"
  by (simp add: float_eval)

lemma fadd_d21_0: "fadd (5910974510923775 / 281474976710656) 0 = 5910974510923775 / 281474976710656"
  by (simp add: float_eval)

lemma float_of_int_3: "float_of_int 3 = 3"
  by (simp add: float_eval)

lemma fdiv_100_3: "fdiv 100 3 = 4691249611844267 / 140737488355328"
  by (simp add: float_eval)

lemma sampling_plan_rounding_shows:
  "sampling_plan 100
     \<lparr>fps = 10, width = 480, quality = 50, interval_count = 3,
      clip_length = binary64 (7 / 10), bridge_percent = 0, bridge_interval_abs = 0,
      bridge_window = binary64 (3 / 100)\<rparr> =
   Inr \<lparr>interval = fdiv 100 3, bridge_interval = 0, expected_frames = 20\<rparr>"
  unfolding double_7_10 double_3_100
  by (simp add: sampling_plan_def Let_def py_int_def float_of_int_10 float_of_int_3
      fmul_3_d07 fmul_d21_10 fadd_d21_0)









text \<open>
  Claim C9: whenever the plan is computed (the interval count is not zero), the bridge
  interval is the float product \<open>interval * bridge_percent\<close> when the percentage is
  positive, otherwise the absolute bridge interval when that is positive, otherwise 0; so
  a positive percentage wins over a positive absolute interval.
\<close>

theorem C9_bridge_interval_priority:
  assumes "interval_count C \<noteq> 0"
  shows "\<exists>p. sampling_plan D C = Inr p \<and>
    interval p = fdiv D (float_of_int (interval_count C)) \<and>
    bridge_interval p =
      (if bridge_percent C > 0 then fmul (interval p) (bridge_percent C)
       else if bridge_interval_abs C > 0 then bridge_interval_abs C
       else 0) \<and>
    (bridge_percent C > 0 \<and> bridge_interval_abs C > 0 \<longrightarrow>
       bridge_interval p = fmul (fdiv D (float_of_int (interval_count C))) (bridge_percent C))"
proof -
  obtain p where p: "sampling_plan D C = Inr p"
    and i: "interval p = fdiv D (float_of_int (interval_count C))"
    and b: "bridge_interval p =
      (if bridge_percent C > 0
       then fmul (fdiv D (float_of_int (interval_count C))) (bridge_percent C)
       else if bridge_interval_abs C > 0 then bridge_interval_abs C
       else 0)"
    using sampling_plan_Inr [OF assms, of D] by blast
  from b have "bridge_percent C > 0 \<and> bridge_interval_abs C > 0 \<longrightarrow>
       bridge_interval p = fmul (fdiv D (float_of_int (interval_count C))) (bridge_percent C)"
    by simp
  with p i b show ?thesis by simp
qed

text \<open>Both bridge settings positive: the percentage decides.\<close>

lemma sampling_plan_both_bridges:
  "sampling_plan 100
     \<lparr>fps = 10, width = 480, quality = 50, interval_count = 10,
      clip_length = binary64 (3 / 10), bridge_percent = fdiv 5 100, bridge_interval_abs = 2,
      bridge_window = binary64 (3 / 100)\<rparr> =
   Inr \<lparr>interval = 10, bridge_interval = 1 / 2, expected_frames = 90\<rparr>"
  unfolding double_3_10 double_5_100 double_3_100
  by (simp add: sampling_plan_def Let_def py_int_def float_of_int_10 fdiv_100_10
      fmul_10_d005 fmul_10_d03 fmul_3_10 fdiv_100_half fmul_200_d003 fmul_6_10 fadd_30_60)

theorem C9_bridge_interval_priority_witness:
  "interval_count \<lparr>fps = 10, width = 480, quality = 50, interval_count = 10,
          clip_length = binary64 (3 / 10), bridge_percent = fdiv 5 100,
          bridge_interval_abs = 2, bridge_window = binary64 (3 / 100)\<rparr> \<noteq> 0 \<and>
   (\<exists>p. sampling_plan 100
         \<lparr>fps = 10, width = 480, quality = 50, interval_count = 10,
          clip_length = binary64 (3 / 10), bridge_percent = fdiv 5 100,
          bridge_interval_abs = 2, bridge_window = binary64 (3 / 100)\<rparr> = Inr p \<and>
       interval p = 10 \<and> bridge_interval p = 1 / 2)"
  using C9_bridge_interval_priority
    [of "\<lparr>fps = 10, width = 480, quality = 50, interval_count = 10,
          clip_length = binary64 (3 / 10), bridge_percent = fdiv 5 100,
          bridge_interval_abs = 2, bridge_window = binary64 (3 / 100)\<rparr>" 100]
  by (simp add: sampling_plan_both_bridges)

section \<open>Properties of \<^verbatim>\<open>get_video_duration\<close>\<close>

text \<open>The loop runs ffprobe at most once per attempt allowed.\<close>

lemma loop_probe_count:
  "length (filter (\<lambda>c. c = Ffprobe) (snd (get_video_duration_loop pf pr a n))) \<le> n"
proof (induction n arbitrary: a)
  case 0
  show ?case by simp
next
  case (Suc n)
  have "length (filter (\<lambda>c. c = Ffprobe) (snd (get_video_duration_loop pf pr (Suc a) n))) \<le> n"
    by (rule Suc.IH)
  then show ?case
    by (auto split: probe_result.split option.split prod.split)
qed

text \<open>When every attempt gives empty or unparseable output, each is followed by a sleep.\<close>

lemma loop_all_fail:
  "(\<forall>j<n. attempt_fails pf (pr (a + j))) \<Longrightarrow>
   get_video_duration_loop pf pr a n = (Inr None, concat (replicate n [Ffprobe, Sleep (1 / 2)]))"
proof (induction n arbitrary: a)
  case 0
  show ?case by simp
next
  case (Suc n)
  from Suc.prems have here: "attempt_fails pf (pr a)"
    by (metis add.right_neutral zero_less_Suc)
  from Suc.prems have "\<forall>j<n. attempt_fails pf (pr (Suc a + j))"
    by (metis Suc_less_eq add_Suc_right add_Suc)
  then have rest: "get_video_duration_loop pf pr (Suc a) n =
      (Inr None, concat (replicate n [Ffprobe, Sleep (1 / 2)]))"
    by (rule Suc.IH)
  from here rest show ?case
    by (simp add: attempt_fails_def split: probe_result.splits)
qed

text \<open>The first attempt whose output parses ends the loop with its value.\<close>

lemma loop_first_success:
  "i < n \<Longrightarrow> (\<forall>j<i. attempt_fails pf (pr (a + j))) \<Longrightarrow> attempt_yields pf (pr (a + i)) v \<Longrightarrow>
   get_video_duration_loop pf pr a n =
     (Inr (Some v), concat (replicate i [Ffprobe, Sleep (1 / 2)]) @ [Ffprobe])"
proof (induction i arbitrary: a n)
  case 0
  then obtain m where "n = Suc m" by (cases n) auto
  with 0 show ?case
    by (simp add: attempt_yields_def split: probe_result.splits)
next
  case (Suc i)
  then obtain m where n: "n = Suc m" and im: "i < m" by (cases n) auto
  from Suc.prems have here: "attempt_fails pf (pr a)"
    by (metis add.right_neutral zero_less_Suc)
  from Suc.prems have fails: "\<forall>j<i. attempt_fails pf (pr (Suc a + j))"
    by (metis Suc_less_eq add_Suc_right add_Suc)
  from Suc.prems have yields: "attempt_yields pf (pr (Suc a + i)) v"
    by simp
  have rest: "get_video_duration_loop pf pr (Suc a) m =
     (Inr (Some v), concat (replicate i [Ffprobe, Sleep (1 / 2)]) @ [Ffprobe])"
    using im fails yields by (rule Suc.IH)
  from here rest n show ?case
    by (simp add: attempt_fails_def split: probe_result.splits)
qed

text \<open>A value returned is the value of the first attempt that parses.\<close>

lemma loop_Some_first:
  "fst (get_video_duration_loop pf pr a n) = Inr (Some v) \<Longrightarrow>
   \<exists>i<n. (\<forall>j<i. attempt_fails pf (pr (a + j))) \<and> attempt_yields pf (pr (a + i)) v"
proof (induction n arbitrary: a)
  case 0
  then show ?case by simp
next
  case (Suc n)
  show ?case
  proof (cases "pr a")
    case (ProbeRaises e)
    with Suc.prems show ?thesis by simp
  next
    case (ProbeStdout out)
    show ?thesis
    proof (cases "parsed_output pf out")
      case (Some w)
      with ProbeStdout Suc.prems have "w = v" by simp
      with Some ProbeStdout have "attempt_yields pf (pr (a + 0)) v"
        by (simp add: attempt_yields_def)
      then show ?thesis by (intro exI[of _ 0]) simp
    next
      case None
      with ProbeStdout Suc.prems
      have "fst (get_video_duration_loop pf pr (Suc a) n) = Inr (Some v)"
        by (simp split: prod.splits)
      then obtain i where i: "i < n" "\<forall>j<i. attempt_fails pf (pr (Suc a + j))"
          "attempt_yields pf (pr (Suc a + i)) v"
        using Suc.IH by blast
      have here: "attempt_fails pf (pr a)"
        using None ProbeStdout by (simp add: attempt_fails_def)
      have "\<forall>j<Suc i. attempt_fails pf (pr (a + j))"
      proof (intro allI impI)
        fix j assume "j < Suc i"
        show "attempt_fails pf (pr (a + j))"
        proof (cases j)
          case 0
          with here show ?thesis by simp
        next
          case (Suc k)
          with \<open>j < Suc i\<close> i(2) show ?thesis by simp
        qed
      qed
      moreover have "attempt_yields pf (pr (a + Suc i)) v" using i(3) by simp
      moreover have "Suc i < Suc n" using i(1) by simp
      ultimately show ?thesis by blast
    qed
  qed
qed

text \<open>
  Claim C4, as the code has it: \<^verbatim>\<open>get_video_duration\<close> runs ffprobe at most 3 times
  and sleeps 0.5 seconds after every attempt that gave empty or unparseable output (also
  after the last one). It returns the value of the first attempt whose stripped output
  \<^verbatim>\<open>float\<close> accepts, whatever the sign of that value, and a value it returns is the
  value of that first attempt; it returns \<^verbatim>\<open>None\<close> when all three attempts give empty
  or unparseable output. With a probe that fails twice and then succeeds it returns the
  value after exactly 3 runs.
\<close>

theorem C4_get_video_duration_retries:
  "length (filter (\<lambda>c. c = Ffprobe) (snd (get_video_duration pf pr 3))) \<le> 3 \<and>
   (\<forall>i v. i < 3 \<and> (\<forall>j<i. attempt_fails pf (pr j)) \<and> attempt_yields pf (pr i) v \<longrightarrow>
      get_video_duration pf pr 3 =
        (Inr (Some v), concat (replicate i [Ffprobe, Sleep (1 / 2)]) @ [Ffprobe])) \<and>
   (\<forall>v. fst (get_video_duration pf pr 3) = Inr (Some v) \<longrightarrow>
      (\<exists>i<3. (\<forall>j<i. attempt_fails pf (pr j)) \<and> attempt_yields pf (pr i) v)) \<and>
   ((\<forall>j<3. attempt_fails pf (pr j)) \<longrightarrow>
      get_video_duration pf pr 3 = (Inr None, concat (replicate 3 [Ffprobe, Sleep (1 / 2)]))) \<and>
   (attempt_fails pf (pr 0) \<and> attempt_fails pf (pr 1) \<and> attempt_yields pf (pr 2) w \<longrightarrow>
      get_video_duration pf pr 3 =
        (Inr (Some w), [Ffprobe, Sleep (1 / 2), Ffprobe, Sleep (1 / 2), Ffprobe]))"
proof (intro conjI allI impI)
  show "length (filter (\<lambda>c. c = Ffprobe) (snd (get_video_duration pf pr 3))) \<le> 3"
    unfolding get_video_duration_def by (rule loop_probe_count)
next
  fix i v
  assume "i < 3 \<and> (\<forall>j<i. attempt_fails pf (pr j)) \<and> attempt_yields pf (pr i) v"
  then show "get_video_duration pf pr 3 =
        (Inr (Some v), concat (replicate i [Ffprobe, Sleep (1 / 2)]) @ [Ffprobe])"
    unfolding get_video_duration_def
    using loop_first_success [of i 3 pf pr 0 v] by simp
next
  fix v
  assume "fst (get_video_duration pf pr 3) = Inr (Some v)"
  then show "\<exists>i<3. (\<forall>j<i. attempt_fails pf (pr j)) \<and> attempt_yields pf (pr i) v"
    unfolding get_video_duration_def
    using loop_Some_first [of pf pr 0 3 v] by simp
next
  assume "\<forall>j<3. attempt_fails pf (pr j)"
  then show "get_video_duration pf pr 3 = (Inr None, concat (replicate 3 [Ffprobe, Sleep (1 / 2)]))"
    unfolding get_video_duration_def
    using loop_all_fail [of 3 pf pr 0] by simp
next
  assume a: "attempt_fails pf (pr 0) \<and> attempt_fails pf (pr 1) \<and> attempt_yields pf (pr 2) w"
  have "\<forall>j<2. attempt_fails pf (pr (0 + j))"
  proof (intro allI impI)
    fix j :: nat assume "j < 2"
    then have "j = 0 \<or> j = 1" by arith
    with a show "attempt_fails pf (pr (0 + j))" by auto
  qed
  moreover have "attempt_yields pf (pr (0 + 2)) w" using a by (simp only: add_0)
  ultimately have "get_video_duration_loop pf pr 0 3 =
     (Inr (Some w), concat (replicate 2 [Ffprobe, Sleep (1 / 2)]) @ [Ffprobe])"
    using loop_first_success [of 2 3 pf pr 0 w] by simp
  then show "get_video_duration pf pr 3 =
        (Inr (Some w), [Ffprobe, Sleep (1 / 2), Ffprobe, Sleep (1 / 2), Ffprobe])"
    unfolding get_video_duration_def by (simp add: numeral_2_eq_2)
qed

lemma parsed_output_empty: "parsed_output pf '''' = None"
  by (simp add: parsed_output_def strip_def)

lemma strip_12_5: "strip ''12.5\<newline>'' = ''12.5''"
  by (simp add: strip_def py_isspace_def)

lemma py_float_12_5: "py_float ''12.5'' = Some (25 / 2)"
  by (simp add: py_float_def split_sign_def is_digit_def digits_val_def digit_val_def)

lemma parsed_output_12_5: "parsed_output py_float ''12.5\<newline>'' = Some (25 / 2)"
  by (simp add: parsed_output_def strip_12_5 py_float_12_5)

text \<open>A probe that prints nothing twice and then \<^verbatim>\<open>12.5\<close>.\<close>

theorem C4_get_video_duration_retries_witness:
  "attempt_fails py_float (ProbeStdout '''') \<and>
   attempt_yields py_float (ProbeStdout ''12.5\<newline>'') (25 / 2) \<and>
   get_video_duration py_float
     (\<lambda>i. if i < 2 then ProbeStdout '''' else ProbeStdout ''12.5\<newline>'') 3 =
     (Inr (Some (25 / 2)), [Ffprobe, Sleep (1 / 2), Ffprobe, Sleep (1 / 2), Ffprobe])"
  using C4_get_video_duration_retries
    [of py_float "\<lambda>i. if i < 2 then ProbeStdout '''' else ProbeStdout ''12.5\<newline>''" "25 / 2"]
  by (simp add: attempt_fails_def attempt_yields_def parsed_output_empty parsed_output_12_5)

lemma strip_0: "strip ''0\<newline>'' = ''0''"
  by (simp add: strip_def py_isspace_def)

lemma py_float_0: "py_float ''0'' = Some 0"
  by (simp add: py_float_def split_sign_def is_digit_def digits_val_def digit_val_def)

lemma strip_neg: "strip ''-5.0\<newline>'' = ''-5.0''"
  by (simp add: strip_def py_isspace_def)

lemma py_float_neg: "py_float ''-5.0'' = Some (- 5)"
  by (simp add: py_float_def split_sign_def is_digit_def digits_val_def digit_val_def)

text \<open>
  Claim C4 requires a positive value; the code does not: an output of \<^verbatim>\<open>0\<close> or of
  \<^verbatim>\<open>-5.0\<close> is returned as the duration at the first attempt.
\<close>

theorem C4_positive_counterexample:
  "get_video_duration py_float (\<lambda>i. ProbeStdout ''0\<newline>'') 3 = (Inr (Some 0), [Ffprobe]) \<and>
   get_video_duration py_float (\<lambda>i. ProbeStdout ''-5.0\<newline>'') 3 = (Inr (Some (- 5)), [Ffprobe]) \<and>
   \<not> (0::real) < 0 \<and> \<not> (0::real) < - 5"
  by (simp add: get_video_duration_def numeral_3_eq_3 parsed_output_def
      strip_0 py_float_0 strip_neg py_float_neg)

section \<open>Properties of \<^verbatim>\<open>process_video\<close>\<close>

text \<open>A line that contains \<^verbatim>\<open>frame=\<close> has at least two fields.\<close>

lemma split_not_Nil: "split sep s \<noteq> []"
  by (induction s) (auto split: list.splits)

lemma split_append_sep_length: "2 \<le> length (split sep (p @ sep # r))"
proof (induction p)
  case Nil
  have "split sep r \<noteq> []" by (rule split_not_Nil)
  then show ?case by (cases "split sep r") auto
next
  case (Cons c p)
  then show ?case by (auto split: list.splits)
qed

lemma contains_split_length: "contains (p @ [sep]) s \<Longrightarrow> 2 \<le> length (split sep s)"
proof (induction s)
  case Nil
  then show ?case by simp
next
  case (Cons c cs)
  show ?case
  proof (cases "contains (p @ [sep]) cs")
    case True
    then have "2 \<le> length (split sep cs)" by (rule Cons.IH)
    then show ?thesis by (auto split: list.splits)
  next
    case False
    with Cons.prems have "take (length (p @ [sep])) (c # cs) = p @ [sep]"
      by (simp only: contains.simps) simp
    then have "c # cs = (p @ [sep]) @ drop (length (p @ [sep])) (c # cs)"
      by (metis append_take_drop_id)
    then have "c # cs = p @ sep # drop (length (p @ [sep])) (c # cs)"
      by simp
    then show ?thesis
      using split_append_sep_length [of sep p "drop (length (p @ [sep])) (c # cs)"] by simp
  qed
qed

lemma hms_0: "hms 0 = ''00:00:00''"
  by (simp add: hms_def two_digits_def)

text \<open>
  Claim C8, as the code has it: every progress message sent for a status line carries
  the float values \<open>percent = min(100, (current / expected) * 100)\<close> and
  \<open>rate = current / elapsed\<close> (0 when no time has elapsed). When the rate is positive
  the ETA is \<open>int(max(0, expected - current) / rate)\<close> seconds formatted as
  \<^verbatim>\<open>HH:MM:SS\<close>; when the rate is not positive the ETA is the zero duration
  \<^verbatim>\<open>00:00:00\<close>. A line that contains \<^verbatim>\<open>frame=\<close> and whose second field \<^verbatim>\<open>int\<close>
  accepts sends a message with that frame count exactly when \<^verbatim>\<open>time.gmtime\<close> accepts
  the ETA; otherwise the line is dropped.
\<close>

theorem C8_progress_update_fields:
  "(handle_line gm pint wid name expected (line, elapsed) = Some u \<longrightarrow>
      ProgressUpdate.worker_id u = wid \<and> ProgressUpdate.video_name u = name \<and>
      total_frames u = expected \<and>
      progress u = min 100 (fmul (int_truediv (current_frame u) expected) 100) \<and>
      ProgressUpdate.fps u =
        (if elapsed > 0 then fdiv (float_of_int (current_frame u)) elapsed else 0) \<and>
      (ProgressUpdate.fps u > 0 \<longrightarrow>
         strftime_hms gm
           (py_int (fdiv (float_of_int (max 0 (expected - current_frame u)))
                         (ProgressUpdate.fps u))) = Some (eta u)) \<and>
      (\<not> ProgressUpdate.fps u > 0 \<longrightarrow> eta u = ''00:00:00'')) \<and>
   (expected \<noteq> 0 \<and> contains ''frame='' line \<and>
    pint (strip (split CHR ''='' line ! 1)) = Some cur \<longrightarrow>
      (strftime_hms gm (eta_seconds expected cur elapsed) \<noteq> None \<longrightarrow>
         (\<exists>v. handle_line gm pint wid name expected (line, elapsed) = Some v \<and>
              current_frame v = cur)) \<and>
      (strftime_hms gm (eta_seconds expected cur elapsed) = None \<longrightarrow>
         handle_line gm pint wid name expected (line, elapsed) = None))"
proof (intro conjI impI)
  assume h: "handle_line gm pint wid name expected (line, elapsed) = Some u"
  then obtain cur where u: "progress_update gm wid name expected cur elapsed = Some u"
    by (auto simp: handle_line_def Let_def split: if_splits option.splits)
  then have e0: "expected \<noteq> 0" by (auto simp: progress_update_def)
  from u e0 obtain eta_str where
    g: "strftime_hms gm (eta_seconds expected cur elapsed) = Some eta_str"
    by (auto simp: progress_update_def Let_def split: option.splits)
  from u e0 g have eq: "u = \<lparr>ProgressUpdate.worker_id = wid, video_name = name,
      progress = min 100 (fmul (int_truediv cur expected) 100),
      eta = eta_str,
      fps = frame_rate cur elapsed,
      current_frame = cur, total_frames = expected\<rparr>"
    by (simp add: progress_update_def Let_def)
  show "ProgressUpdate.worker_id u = wid" by (simp add: eq)
  show "ProgressUpdate.video_name u = name" by (simp add: eq)
  show "total_frames u = expected" by (simp add: eq)
  show "progress u = min 100 (fmul (int_truediv (current_frame u) expected) 100)"
    by (simp add: eq)
  show "ProgressUpdate.fps u =
      (if elapsed > 0 then fdiv (float_of_int (current_frame u)) elapsed else 0)"
    by (simp add: eq frame_rate_def)
  show "strftime_hms gm
           (py_int (fdiv (float_of_int (max 0 (expected - current_frame u)))
                         (ProgressUpdate.fps u))) = Some (eta u)"
    if "ProgressUpdate.fps u > 0"
    using that g by (simp add: eq eta_seconds_def Let_def)
  show "eta u = ''00:00:00''" if "\<not> ProgressUpdate.fps u > 0"
  proof -
    from that have "eta_seconds expected cur elapsed = 0"
      by (simp add: eq eta_seconds_def Let_def)
    with g have "eta_str = hms 0"
      by (simp add: strftime_hms_def split: if_splits)
    then show ?thesis by (simp add: eq hms_0)
  qed
next
  assume a: "expected \<noteq> 0 \<and> contains ''frame='' line \<and>
    pint (strip (split CHR ''='' line ! 1)) = Some cur"
  have len: "2 \<le> length (split CHR ''='' line)" if "contains ''frame='' line"
    using that contains_split_length [of "''frame''" "CHR ''=''" line] by simp
  from a len have hl: "handle_line gm pint wid name expected (line, elapsed) =
      progress_update gm wid name expected cur elapsed"
    by (simp add: handle_line_def Let_def)
  show "\<exists>v. handle_line gm pint wid name expected (line, elapsed) = Some v \<and>
              current_frame v = cur"
    if "strftime_hms gm (eta_seconds expected cur elapsed) \<noteq> None"
    using that a by (auto simp: hl progress_update_def Let_def)
  show "handle_line gm pint wid name expected (line, elapsed) = None"
    if "strftime_hms gm (eta_seconds expected cur elapsed) = None"
    using that a by (simp add: hl progress_update_def Let_def)
qed

lemma hms_9: "hms 9 = ''00:00:09''"
  by (simp add: hms_def two_digits_def)

lemma contains_frame_45: "contains ''frame='' ''frame=45\<newline>''"
  by simp

lemma split_frame_45: "split CHR ''='' ''frame=45\<newline>'' = [''frame'', ''45\<newline>'']"
  by simp

lemma strip_45: "strip ''45\<newline>'' = ''45''"
  by (simp add: strip_def py_isspace_def)

lemma py_int_of_str_45: "py_int_of_str ''45'' = Some 45"
  by (simp add: py_int_of_str_def split_sign_def is_digit_def digits_val_def digit_val_def)

lemma frame_rate_45: "frame_rate 45 9 = 5"
  by (simp add: frame_rate_def float_eval)

lemma eta_seconds_45: "eta_seconds 90 45 9 = 9"
  by (simp add: eta_seconds_def frame_rate_45 py_int_def float_eval)

lemma percent_45: "fmul (int_truediv 45 90) 100 = 50"
  by (simp add: float_eval)

lemma progress_update_45:
  "progress_update (gmtime_between 0 2147483647) 1 ''a.mp4'' 90 45 9 =
     Some \<lparr>ProgressUpdate.worker_id = 1, video_name = ''a.mp4'', progress = 50,
            eta = ''00:00:09'', fps = 5, current_frame = 45, total_frames = 90\<rparr>"
  by (simp add: progress_update_def Let_def frame_rate_45 eta_seconds_45 percent_45
      strftime_hms_def hms_9 gmtime_between_def)

text \<open>45 of 90 frames after 9 seconds: 50 percent, 5 frames per second, 9 seconds left.\<close>

theorem C8_progress_update_fields_witness:
  "handle_line (gmtime_between 0 2147483647) py_int_of_str 1 ''a.mp4'' 90
     (''frame=45\<newline>'', 9) =
     Some \<lparr>ProgressUpdate.worker_id = 1, video_name = ''a.mp4'', progress = 50,
            eta = ''00:00:09'', fps = 5, current_frame = 45, total_frames = 90\<rparr>"
  using C8_progress_update_fields
    [of "gmtime_between 0 2147483647" py_int_of_str 1 "''a.mp4''" 90 "''frame=45\<newline>''" 9
        "\<lparr>ProgressUpdate.worker_id = 1, video_name = ''a.mp4'', progress = 50,
            eta = ''00:00:09'', fps = 5, current_frame = 45, total_frames = 90\<rparr>" 45]
  by (simp add: handle_line_def contains_frame_45 split_frame_45 strip_45 py_int_of_str_45
      progress_update_45 del: contains.simps split.simps)

lemma contains_frame_0: "contains ''frame='' ''frame=0\<newline>''"
  by simp

lemma split_frame_0: "split CHR ''='' ''frame=0\<newline>'' = [''frame'', ''0\<newline>'']"
  by simp

lemma py_int_of_str_0: "py_int_of_str ''0'' = Some 0"
  by (simp add: py_int_of_str_def split_sign_def is_digit_def digits_val_def digit_val_def)

lemma frame_rate_0: "frame_rate 0 2 = 0"
  by (simp add: frame_rate_def float_eval)

lemma eta_seconds_0: "eta_seconds 90 0 2 = 0"
  by (simp add: eta_seconds_def frame_rate_0)

lemma percent_0: "fmul (int_truediv 0 90) 100 = 0"
  by (simp add: float_eval)

lemma progress_update_0:
  "progress_update (gmtime_between 0 2147483647) 1 ''a.mp4'' 90 0 2 =
     Some \<lparr>ProgressUpdate.worker_id = 1, video_name = ''a.mp4'', progress = 0,
            eta = ''00:00:00'', fps = 0, current_frame = 0, total_frames = 90\<rparr>"
  by (simp add: progress_update_def Let_def frame_rate_0 eta_seconds_0 percent_0
      strftime_hms_def hms_0 gmtime_between_def)

text \<open>
  Claim C8 asks for an "unknown" ETA, not a zero duration, when the rate is 0; the code
  sends the zero duration: for the line \<^verbatim>\<open>frame=0\<close> the rate is 0 and the ETA text is
  \<^verbatim>\<open>00:00:00\<close>, which is what \<^verbatim>\<open>strftime\<close> gives for 0 seconds.
\<close>

theorem C8_unknown_eta_counterexample:
  "handle_line (gmtime_between 0 2147483647) py_int_of_str 1 ''a.mp4'' 90
     (''frame=0\<newline>'', 2) =
     Some \<lparr>ProgressUpdate.worker_id = 1, video_name = ''a.mp4'', progress = 0,
            eta = ''00:00:00'', fps = 0, current_frame = 0, total_frames = 90\<rparr> \<and>
   strftime_hms (gmtime_between 0 2147483647) 0 = Some ''00:00:00''"
  by (simp add: handle_line_def contains_frame_0 split_frame_0 strip_0 py_int_of_str_0
      progress_update_0 strftime_hms_def hms_0 gmtime_between_def
      del: contains.simps split.simps)

text \<open>
  Rounding decides the ETA: 3 of 90 frames after 17 seconds give a float quotient just
  below 493, so the ETA is 492 seconds.
\<close>

lemma frame_rate_3_17: "frame_rate 3 17 = 6358023003346583 / 36028797018963968"
  by (simp add: frame_rate_def float_eval)

lemma eta_seconds_3_17: "eta_seconds 90 3 17 = 492"
  by (simp add: eta_seconds_def frame_rate_3_17 py_int_def float_eval)

lemma hms_492: "hms 492 = ''00:08:12''"
  by (simp add: hms_def two_digits_def)

lemma progress_update_rounding_shows:
  "\<exists>u. progress_update (gmtime_between 0 2147483647) 1 ''a.mp4'' 90 3 17 = Some u \<and>
       eta u = ''00:08:12''"
  by (simp add: progress_update_def Let_def eta_seconds_3_17 strftime_hms_def hms_492
      gmtime_between_def)

text \<open>
  Claim C6: when the output file exists and the job does not overwrite, the only
  message is the successful \<^verbatim>\<open>JobComplete\<close> with message \<^verbatim>\<open>SKIP (exists)\<close>, no
  external program is run (neither ffprobe nor ffmpeg), and no exception is raised.
\<close>

theorem C6_skip_existing:
  assumes "output_exists env" and "\<not> overwrite_existing job"
  shows "process_video gm pf pint env job config wid =
    \<lparr>emitted = [Complete \<lparr>JobComplete.worker_id = wid, video_name = display_name job,
                   success = True, message = ''SKIP (exists)'', deleted_files = None,
                   video_duration = VideoJob.video_duration job\<rparr>],
     calls = [], raised = None\<rparr>"
  using assms by (simp add: process_video_def job_complete_def)

lemma display_name_example:
  "display_name \<lparr>video_path = [''lib'', ''a.mp4''], index = 1, total = 1,
      base_path = Some [''lib''], overwrite_existing = False, video_duration = 60\<rparr> = ''a.mp4''"
  by (simp add: display_name_def relative_to_def)

text \<open>An existing output without the overwrite flag.\<close>

theorem C6_skip_existing_witness:
  "process_video (gmtime_between 0 2147483647) py_float py_int_of_str
     \<lparr>output_exists = True, probe = (\<lambda>i. ProbeStdout ''60.0\<newline>''),
      sampler = SamplerExits [] 0 []\<rparr>
     \<lparr>video_path = [''lib'', ''a.mp4''], index = 1, total = 1, base_path = Some [''lib''],
      overwrite_existing = False, video_duration = 60\<rparr>
     \<lparr>fps = 10, width = 480, quality = 50, interval_count = 10, clip_length = 3 / 10,
      bridge_percent = 5 / 100, bridge_interval_abs = 0, bridge_window = 3 / 100\<rparr> 1 =
    \<lparr>emitted = [Complete \<lparr>JobComplete.worker_id = 1, video_name = ''a.mp4'',
                   success = True, message = ''SKIP (exists)'', deleted_files = None,
                   video_duration = 60\<rparr>],
     calls = [], raised = None\<rparr>"
  using C6_skip_existing
    [of "\<lparr>output_exists = True, probe = (\<lambda>i. ProbeStdout ''60.0\<newline>''),
          sampler = SamplerExits [] 0 []\<rparr>"
        "\<lparr>video_path = [''lib'', ''a.mp4''], index = 1, total = 1, base_path = Some [''lib''],
          overwrite_existing = False, video_duration = 60\<rparr>"
        "gmtime_between 0 2147483647" py_float py_int_of_str
        "\<lparr>fps = 10, width = 480, quality = 50, interval_count = 10, clip_length = 3 / 10,
          bridge_percent = 5 / 100, bridge_interval_abs = 0, bridge_window = 3 / 100\<rparr>" 1]
  by (simp add: display_name_example)

text \<open>
  A call of \<^verbatim>\<open>process_video\<close> that returns normally has sent exactly one
  \<^verbatim>\<open>JobComplete\<close>, as its last message; a call left by an exception has sent nothing.
\<close>

lemma run_sampler_shape:
  "raised (run_sampler gm pint env job wid name fe expected tr) = None \<and>
   (\<exists>ps j. emitted (run_sampler gm pint env job wid name fe expected tr) =
      map Progress ps @ [Complete j])"
  by (cases "sampler env") (auto simp: run_sampler_def job_complete_def)

lemma process_video_result_shape:
  "(raised (process_video gm pf pint env job config wid) = None \<longrightarrow>
      (\<exists>ps j. emitted (process_video gm pf pint env job config wid) =
         map Progress ps @ [Complete j])) \<and>
   (raised (process_video gm pf pint env job config wid) \<noteq> None \<longrightarrow>
      emitted (process_video gm pf pint env job config wid) = [])"
proof (cases "output_exists env \<and> \<not> overwrite_existing job")
  case True
  then have "process_video gm pf pint env job config wid =
    \<lparr>emitted = [job_complete wid (display_name job) True ''SKIP (exists)'' None
                  (VideoJob.video_duration job)], calls = [], raised = None\<rparr>"
    by (auto simp: process_video_def Let_def)
  then show ?thesis by (simp add: job_complete_def)
next
  case False
  obtain r tr where g: "get_video_duration pf (probe env) 3 = (r, tr)"
    by (cases "get_video_duration pf (probe env) 3")
  show ?thesis
  proof (cases r)
    case (Inl e)
    with False g show ?thesis by (auto simp: process_video_def Let_def)
  next
    case (Inr d)
    show ?thesis
    proof (cases d)
      case None
      with False g Inr show ?thesis by (auto simp: process_video_def Let_def job_complete_def)
    next
      case (Some duration)
      show ?thesis
      proof (cases "sampling_plan duration config")
        case (Inl e)
        with False g Inr Some show ?thesis by (auto simp: process_video_def Let_def)
      next
        case (Inr plan)
        with False g \<open>r = Inr d\<close> Some
        have "process_video gm pf pint env job config wid =
          run_sampler gm pint env job wid (display_name job) (output_exists env)
            (expected_frames plan) tr"
          by (auto simp: process_video_def Let_def)
        then show ?thesis using run_sampler_shape by simp
      qed
    qed
  qed
qed

text \<open>
  Claim C2 at a job whose ffprobe cannot be launched (\<^verbatim>\<open>subprocess.run\<close> raises
  \<^verbatim>\<open>FileNotFoundError\<close>): the exception leaves \<^verbatim>\<open>process_video\<close>, no message is
  sent, and the worker that takes this job from the queue exits at the poison pill having
  sent nothing for it.
\<close>

theorem C2_probe_exception_escapes:
  "process_video (gmtime_between 0 2147483647) py_float py_int_of_str
     \<lparr>output_exists = False, probe = (\<lambda>i. ProbeRaises (OtherError ''FileNotFoundError'')),
      sampler = SamplerExits [] 0 []\<rparr>
     \<lparr>video_path = [''lib'', ''a.mp4''], index = 1, total = 1, base_path = Some [''lib''],
      overwrite_existing = False, video_duration = 0\<rparr>
     \<lparr>fps = 10, width = 480, quality = 50, interval_count = 10, clip_length = 3 / 10,
      bridge_percent = 5 / 100, bridge_interval_abs = 0, bridge_window = 3 / 100\<rparr> 1 =
    \<lparr>emitted = [], calls = [Ffprobe], raised = Some (OtherError ''FileNotFoundError'')\<rparr> \<and>
   worker_process (gmtime_between 0 2147483647) py_float py_int_of_str
     (\<lambda>job. \<lparr>output_exists = False,
              probe = (\<lambda>i. ProbeRaises (OtherError ''FileNotFoundError'')),
              sampler = SamplerExits [] 0 []\<rparr>)
     \<lparr>fps = 10, width = 480, quality = 50, interval_count = 10, clip_length = 3 / 10,
      bridge_percent = 5 / 100, bridge_interval_abs = 0, bridge_window = 3 / 100\<rparr> 1
     [Some \<lparr>video_path = [''lib'', ''a.mp4''], index = 1, total = 1, base_path = Some [''lib''],
            overwrite_existing = False, video_duration = 0\<rparr>, None] =
    ([], [OtherError ''FileNotFoundError''], True)"
  by (simp add: process_video_def get_video_duration_def numeral_3_eq_3)

section \<open>Properties of the coordinator\<close>

text \<open>
  Claim C3, as the code has it: while stopping, a \<^verbatim>\<open>JobComplete\<close> increments
  \<^verbatim>\<open>completed_videos\<close> exactly when it is successful and its message is not
  \<^verbatim>\<open>SKIP (exists)\<close>; otherwise the counter is unchanged.
\<close>

theorem C3_draining_counts_only_real_successes:
  assumes "is_stopping s"
  shows "completed_videos (fst (on_job_complete gm s m alive elapsed)) =
    (if success m \<and> message m \<noteq> ''SKIP (exists)''
     then completed_videos s + 1 else completed_videos s)"
  using assms by (simp add: on_job_complete_def Let_def)

text \<open>A successful job that finishes while stopping is counted.\<close>

theorem C3_draining_counts_only_real_successes_witness:
  "is_stopping \<lparr>workers = [1, 2], job_queue = [None, None], is_running = False,
      is_stopping = True, active_workers = 2, total_videos = 5, completed_videos = 1,
      video_completion_times = [], total_video_duration = 100,
      processed_video_duration = 20, video_durations = Map.empty\<rparr> \<and>
   completed_videos (fst (on_job_complete (gmtime_between 0 2147483647)
     \<lparr>workers = [1, 2], job_queue = [None, None], is_running = False,
      is_stopping = True, active_workers = 2, total_videos = 5, completed_videos = 1,
      video_completion_times = [], total_video_duration = 100,
      processed_video_duration = 20, video_durations = Map.empty\<rparr>
     \<lparr>JobComplete.worker_id = 1, video_name = ''a.mp4'', success = True, message = ''OK'',
      deleted_files = Some [], video_duration = 20\<rparr> 1 30)) = 2"
  using C3_draining_counts_only_real_successes
    [of "\<lparr>workers = [1, 2], job_queue = [None, None], is_running = False,
      is_stopping = True, active_workers = 2, total_videos = 5, completed_videos = 1,
      video_completion_times = [], total_video_duration = 100,
      processed_video_duration = 20, video_durations = Map.empty\<rparr>"
     "gmtime_between 0 2147483647"
     "\<lparr>JobComplete.worker_id = 1, video_name = ''a.mp4'', success = True, message = ''OK'',
      deleted_files = Some [], video_duration = 20\<rparr>" 1 30]
  by simp

text \<open>
  Claim C3 counts every result while stopping; the code does not: a failed result and a
  skipped one both leave the counter at 1.
\<close>

theorem C3_failed_not_counted_counterexample:
  "completed_videos (fst (on_job_complete (gmtime_between 0 2147483647)
     \<lparr>workers = [1, 2], job_queue = [None, None], is_running = False,
      is_stopping = True, active_workers = 2, total_videos = 5, completed_videos = 1,
      video_completion_times = [], total_video_duration = 100,
      processed_video_duration = 20, video_durations = Map.empty\<rparr>
     \<lparr>JobComplete.worker_id = 1, video_name = ''a.mp4'', success = False,
      message = ''ffmpeg error'', deleted_files = None, video_duration = 20\<rparr> 1 30)) = 1 \<and>
   completed_videos (fst (on_job_complete (gmtime_between 0 2147483647)
     \<lparr>workers = [1, 2], job_queue = [None, None], is_running = False,
      is_stopping = True, active_workers = 2, total_videos = 5, completed_videos = 1,
      video_completion_times = [], total_video_duration = 100,
      processed_video_duration = 20, video_durations = Map.empty\<rparr>
     \<lparr>JobComplete.worker_id = 2, video_name = ''b.mp4'', success = True,
      message = ''SKIP (exists)'', deleted_files = None, video_duration = 20\<rparr> 1 30)) = 1"
  by (simp add: on_job_complete_def Let_def)






text \<open>
  The ETA of a running batch, for the counters after the message has been counted: a
  numeric ETA when the warm-up holds, the rate is positive and \<^verbatim>\<open>time.gmtime\<close>
  accepts the ETA; "calculating" before the warm-up, and past it when the rate is not
  positive and time has elapsed. Past the warm-up the division raises when no time has
  elapsed, and \<^verbatim>\<open>time.gmtime\<close> raises on an ETA outside its range.
\<close>

lemma eta_gating:
  assumes "\<not> is_stopping s"
  shows "let c = completed_videos s + 1;
             p = fadd (processed_video_duration s) (JobComplete.video_duration m);
             rate = fdiv p elapsed;
             eta = py_int (fdiv (fsub (total_video_duration s) p) rate);
             done = (if c \<ge> total_videos s then [ProcessingComplete] else [])
         in (\<forall>eta_str. (c \<ge> 2 \<or> elapsed \<ge> 10) \<and> elapsed \<noteq> 0 \<and> rate > 0 \<and>
                strftime_hms gm eta = Some eta_str \<longrightarrow>
               snd (on_job_complete gm s m alive elapsed) =
                 SetOverallLabel (EtaNumeric c (total_videos s) (total_videos s - c)
                   eta_str rate) # done) \<and>
            (\<not> (c \<ge> 2 \<or> elapsed \<ge> 10) \<longrightarrow>
               snd (on_job_complete gm s m alive elapsed) =
                 SetOverallLabel (EtaCalculating c (total_videos s) (total_videos s - c)) # done) \<and>
            ((c \<ge> 2 \<or> elapsed \<ge> 10) \<and> elapsed \<noteq> 0 \<and> \<not> rate > 0 \<longrightarrow>
               snd (on_job_complete gm s m alive elapsed) =
                 SetOverallLabel (EtaCalculating c (total_videos s) (total_videos s - c)) # done) \<and>
            ((c \<ge> 2 \<or> elapsed \<ge> 10) \<and> elapsed = 0 \<longrightarrow>
               snd (on_job_complete gm s m alive elapsed) = [MonitorError ZeroDivisionError]) \<and>
            ((c \<ge> 2 \<or> elapsed \<ge> 10) \<and> elapsed \<noteq> 0 \<and> rate > 0 \<and>
                strftime_hms gm eta = None \<longrightarrow>
               snd (on_job_complete gm s m alive elapsed) = [MonitorError GmtimeError])"
  unfolding Let_def
proof (intro conjI impI allI)
  fix eta_str
  assume "(2 \<le> completed_videos s + 1 \<or> 10 \<le> elapsed) \<and> elapsed \<noteq> 0 \<and>
    0 < fdiv (fadd (processed_video_duration s) (JobComplete.video_duration m)) elapsed \<and>
    strftime_hms gm (py_int (fdiv (fsub (total_video_duration s)
          (fadd (processed_video_duration s) (JobComplete.video_duration m)))
          (fdiv (fadd (processed_video_duration s) (JobComplete.video_duration m)) elapsed))) =
      Some eta_str"
  with assms show "snd (on_job_complete gm s m alive elapsed) =
    SetOverallLabel (EtaNumeric (completed_videos s + 1) (total_videos s)
        (total_videos s - (completed_videos s + 1)) eta_str
        (fdiv (fadd (processed_video_duration s) (JobComplete.video_duration m)) elapsed)) #
    (if total_videos s \<le> completed_videos s + 1 then [ProcessingComplete] else [])"
    by (auto simp: on_job_complete_def Let_def)
next
  assume "\<not> (2 \<le> completed_videos s + 1 \<or> 10 \<le> elapsed)"
  with assms show "snd (on_job_complete gm s m alive elapsed) =
    SetOverallLabel (EtaCalculating (completed_videos s + 1) (total_videos s)
        (total_videos s - (completed_videos s + 1))) #
    (if total_videos s \<le> completed_videos s + 1 then [ProcessingComplete] else [])"
    by (simp add: on_job_complete_def Let_def)
next
  assume "(2 \<le> completed_videos s + 1 \<or> 10 \<le> elapsed) \<and> elapsed \<noteq> 0 \<and>
    \<not> 0 < fdiv (fadd (processed_video_duration s) (JobComplete.video_duration m)) elapsed"
  with assms show "snd (on_job_complete gm s m alive elapsed) =
    SetOverallLabel (EtaCalculating (completed_videos s + 1) (total_videos s)
        (total_videos s - (completed_videos s + 1))) #
    (if total_videos s \<le> completed_videos s + 1 then [ProcessingComplete] else [])"
    by (auto simp: on_job_complete_def Let_def)
next
  assume "(2 \<le> completed_videos s + 1 \<or> 10 \<le> elapsed) \<and> elapsed = 0"
  with assms show "snd (on_job_complete gm s m alive elapsed) = [MonitorError ZeroDivisionError]"
    by (auto simp: on_job_complete_def Let_def)
next
  assume "(2 \<le> completed_videos s + 1 \<or> 10 \<le> elapsed) \<and> elapsed \<noteq> 0 \<and>
    0 < fdiv (fadd (processed_video_duration s) (JobComplete.video_duration m)) elapsed \<and>
    strftime_hms gm (py_int (fdiv (fsub (total_video_duration s)
          (fadd (processed_video_duration s) (JobComplete.video_duration m)))
          (fdiv (fadd (processed_video_duration s) (JobComplete.video_duration m)) elapsed))) =
      None"
  with assms show "snd (on_job_complete gm s m alive elapsed) = [MonitorError GmtimeError]"
    by (auto simp: on_job_complete_def Let_def)
qed

text \<open>
  Claim C7 at a second completed job with no wall time elapsed since the batch start
  (a coarse clock): the warm-up holds, the division by \<open>elapsed\<close> raises
  \<^verbatim>\<open>ZeroDivisionError\<close>, and neither an ETA nor "calculating" is shown.
\<close>

theorem C7_zero_elapsed_raises:
  "snd (on_job_complete (gmtime_between 0 2147483647)
     \<lparr>workers = [1, 2], job_queue = [], is_running = True, is_stopping = False,
      active_workers = 0, total_videos = 5, completed_videos = 1,
      video_completion_times = [0], total_video_duration = 300,
      processed_video_duration = 60, video_durations = Map.empty\<rparr>
     \<lparr>JobComplete.worker_id = 2, video_name = ''b.mp4'', success = True,
      message = ''SKIP (exists)'', deleted_files = None, video_duration = 60\<rparr> 2 0) =
   [MonitorError ZeroDivisionError]"
  by (simp add: on_job_complete_def Let_def)

text \<open>What the scan adds to the total for a file, and what the job of that file carries.\<close>

lemma truthy_scanned:
  "truthy (probed pf probe_of v) \<Longrightarrow> the (probed pf probe_of v) = scanned_duration pf probe_of v"
  by (auto simp: truthy_def scanned_duration_def split: option.splits)

lemma not_truthy_scanned:
  "\<not> truthy (probed pf probe_of v) \<Longrightarrow> scanned_duration pf probe_of v = 0"
  by (auto simp: truthy_def scanned_duration_def split: option.splits)

text \<open>
  When every call of \<^verbatim>\<open>get_video_duration\<close> returns, the scan returns, adds the
  truthy durations to the total and stores them under their files.
\<close>

lemma scan_videos_returns:
  assumes "\<forall>v\<in>set files. \<exists>d. fst (get_video_duration pf (probe_of v) 3) = Inr d"
  shows "\<exists>s'. scan_videos pf probe_of files s = Inr s' \<and>
    total_videos s' = total_videos s \<and>
    total_video_duration s' =
      foldl (\<lambda>t v. if truthy (probed pf probe_of v)
                    then fadd t (scanned_duration pf probe_of v) else t)
            (total_video_duration s) files \<and>
    (\<forall>v. video_durations s' v =
       (if v \<in> set files \<and> truthy (probed pf probe_of v)
        then Some (scanned_duration pf probe_of v) else video_durations s v))"
  using assms
proof (induction files arbitrary: s)
  case Nil
  show ?case by simp
next
  case (Cons video rest)
  from Cons.prems obtain d where d: "fst (get_video_duration pf (probe_of video) 3) = Inr d"
    by auto
  then have pd: "probed pf probe_of video = d" by (simp add: probed_def)
  from Cons.prems have rest: "\<forall>v\<in>set rest. \<exists>d. fst (get_video_duration pf (probe_of v) 3) = Inr d"
    by simp
  show ?case
  proof (cases "truthy d")
    case True
    let ?s1 = "s\<lparr>video_durations := (video_durations s)(video \<mapsto> the d),
                  total_video_duration := fadd (total_video_duration s) (the d)\<rparr>"
    from Cons.IH [OF rest, of ?s1] obtain s' where
      s': "scan_videos pf probe_of rest ?s1 = Inr s'"
      and tv: "total_videos s' = total_videos ?s1"
      and td: "total_video_duration s' =
        foldl (\<lambda>t v. if truthy (probed pf probe_of v)
                    then fadd t (scanned_duration pf probe_of v) else t)
            (total_video_duration ?s1) rest"
      and vd: "\<forall>v. video_durations s' v =
         (if v \<in> set rest \<and> truthy (probed pf probe_of v)
          then Some (scanned_duration pf probe_of v) else video_durations ?s1 v)"
      by blast
    have the_d: "the d = scanned_duration pf probe_of video"
      using True pd truthy_scanned [of pf probe_of video] by simp
    have 1: "scan_videos pf probe_of (video # rest) s = Inr s'"
      using d True s' by simp
    have 2: "total_videos s' = total_videos s" using tv by simp
    have 3: "total_video_duration s' =
      foldl (\<lambda>t v. if truthy (probed pf probe_of v)
                    then fadd t (scanned_duration pf probe_of v) else t)
            (total_video_duration s) (video # rest)"
      using td the_d True pd by simp
    have 4: "\<forall>v. video_durations s' v =
       (if v \<in> set (video # rest) \<and> truthy (probed pf probe_of v)
        then Some (scanned_duration pf probe_of v) else video_durations s v)"
      using vd the_d True pd by auto
    from 1 2 3 4 show ?thesis by blast
  next
    case False
    from Cons.IH [OF rest, of s] obtain s' where
      s': "scan_videos pf probe_of rest s = Inr s'"
      and tv: "total_videos s' = total_videos s"
      and td: "total_video_duration s' =
        foldl (\<lambda>t v. if truthy (probed pf probe_of v)
                    then fadd t (scanned_duration pf probe_of v) else t)
            (total_video_duration s) rest"
      and vd: "\<forall>v. video_durations s' v =
         (if v \<in> set rest \<and> truthy (probed pf probe_of v)
          then Some (scanned_duration pf probe_of v) else video_durations s v)"
      by blast
    have 1: "scan_videos pf probe_of (video # rest) s = Inr s'"
      using d False s' by simp
    have 3: "total_video_duration s' =
      foldl (\<lambda>t v. if truthy (probed pf probe_of v)
                    then fadd t (scanned_duration pf probe_of v) else t)
            (total_video_duration s) (video # rest)"
      using td False pd by simp
    have 4: "\<forall>v. video_durations s' v =
       (if v \<in> set (video # rest) \<and> truthy (probed pf probe_of v)
        then Some (scanned_duration pf probe_of v) else video_durations s v)"
      using vd False pd by auto
    from 1 tv 3 4 show ?thesis by blast
  qed
qed

text \<open>
  When the duration probe returns for every file, the pre-pass ends normally and the
  queue then holds one job per file, in order, followed by the poison pills. A file whose
  probe returned \<^verbatim>\<open>None\<close> has its job with duration 0, and the total duration is the
  float sum of the truthy durations, in the order of the files.
\<close>

lemma scan_enqueues_failed_probes:
  assumes "\<forall>v\<in>set files. \<exists>d. fst (get_video_duration pf (probe_of v) 3) = Inr d"
  shows "\<exists>s'. scan_videos_and_start pf probe_of files folder overwrite n
                 (start_processing files s) = Inr s' \<and>
    length (job_queue s') = length files + n \<and>
    (\<forall>k<length files. \<exists>job. job_queue s' ! k = Some job \<and>
        video_path job = files ! k \<and> index job = int k + 1 \<and>
        VideoJob.video_duration job = scanned_duration pf probe_of (files ! k) \<and>
        (fst (get_video_duration pf (probe_of (files ! k)) 3) = Inr None \<longrightarrow>
           VideoJob.video_duration job = 0)) \<and>
    (\<forall>k<n. job_queue s' ! (length files + k) = None) \<and>
    total_video_duration s' =
      foldl (\<lambda>t v. if truthy (probed pf probe_of v)
                    then fadd t (scanned_duration pf probe_of v) else t) 0 files"
proof -
  let ?s0 = "start_processing files s"
  from scan_videos_returns [OF assms, of ?s0] obtain s1 where
    s1: "scan_videos pf probe_of files ?s0 = Inr s1"
    and td: "total_video_duration s1 =
      foldl (\<lambda>t v. if truthy (probed pf probe_of v)
                    then fadd t (scanned_duration pf probe_of v) else t)
            (total_video_duration ?s0) files"
    and vd: "\<forall>v. video_durations s1 v =
       (if v \<in> set files \<and> truthy (probed pf probe_of v)
        then Some (scanned_duration pf probe_of v) else video_durations ?s0 v)"
    by blast
  let ?s' = "finalize_scan_and_start files folder overwrite n s1"
  let ?jobs = "map (\<lambda>iv. Some (make_job s1 folder overwrite iv))
             (zip (map int [1 ..< Suc (length files)]) files)"
  have q: "job_queue ?s' = ?jobs @ replicate n None"
    by (simp add: finalize_scan_and_start_def)
  have len: "length ?jobs = length files" by (simp del: upt_Suc)
  have r: "scan_videos_and_start pf probe_of files folder overwrite n ?s0 = Inr ?s'"
    by (simp add: scan_videos_and_start_def s1)
  have l: "length (job_queue ?s') = length files + n"
    using len by (simp only: q length_append length_replicate)
  have t: "total_video_duration ?s' =
      foldl (\<lambda>t v. if truthy (probed pf probe_of v)
                    then fadd t (scanned_duration pf probe_of v) else t) 0 files"
    using td by (simp add: finalize_scan_and_start_def start_processing_def)
  have durs: "(case video_durations s1 v of Some d \<Rightarrow> d | None \<Rightarrow> 0) = scanned_duration pf probe_of v"
    if "v \<in> set files" for v
  proof (cases "truthy (probed pf probe_of v)")
    case True
    with vd that show ?thesis by simp
  next
    case False
    with vd have "video_durations s1 v = None" by (simp add: start_processing_def)
    with False show ?thesis by (simp add: not_truthy_scanned)
  qed
  have jobs: "\<exists>job. job_queue ?s' ! k = Some job \<and>
        video_path job = files ! k \<and> index job = int k + 1 \<and>
        VideoJob.video_duration job = scanned_duration pf probe_of (files ! k) \<and>
        (fst (get_video_duration pf (probe_of (files ! k)) 3) = Inr None \<longrightarrow>
           VideoJob.video_duration job = 0)" if k: "k < length files" for k
  proof -
    have nth: "job_queue ?s' ! k = Some (make_job s1 folder overwrite (int (Suc k), files ! k))"
      using k by (simp add: q nth_append nth_zip del: upt_Suc)
    have mem: "files ! k \<in> set files" using k by simp
    have dur: "VideoJob.video_duration (make_job s1 folder overwrite (int (Suc k), files ! k)) =
      scanned_duration pf probe_of (files ! k)"
      using durs [OF mem] by (simp add: make_job_def)
    have none: "scanned_duration pf probe_of (files ! k) = 0"
      if "fst (get_video_duration pf (probe_of (files ! k)) 3) = Inr None"
      using that by (simp add: scanned_duration_def probed_def)
    show ?thesis
      using nth dur none by (simp add: make_job_def)
  qed
  have pills: "job_queue ?s' ! (length files + k) = None" if "k < n" for k
    using that by (simp add: q nth_append del: upt_Suc)
  from r l jobs pills t show ?thesis by blast
qed

text \<open>
  Claim C10 at a batch whose ffprobe cannot be launched (\<^verbatim>\<open>subprocess.run\<close> raises
  \<^verbatim>\<open>FileNotFoundError\<close>): the exception ends the pre-pass, the queue is never filled
  and no job is enqueued for any file.
\<close>

theorem C10_probe_exception_ends_scan:
  "scan_videos_and_start py_float
     (\<lambda>v i. ProbeRaises (OtherError ''FileNotFoundError''))
     [[''lib'', ''a.mp4''], [''lib'', ''b.mp4'']] [''lib''] False 2
     (start_processing [[''lib'', ''a.mp4''], [''lib'', ''b.mp4'']]
        \<lparr>workers = [], job_queue = [], is_running = False, is_stopping = False,
         active_workers = 0, total_videos = 0, completed_videos = 0,
         video_completion_times = [], total_video_duration = 0,
         processed_video_duration = 0, video_durations = Map.empty\<rparr>) =
   Inl (OtherError ''FileNotFoundError'')"
  by (simp add: scan_videos_and_start_def get_video_duration_def numeral_3_eq_3)

end
